theory Spec2Isabelle
  imports Complex_Main
begin

section \<open>JavaScript numbers and the values of a numeric field\<close>

text \<open>
  A JavaScript number is an IEEE double. Every finite double is a rational, so a finite
  number is modelled by its exact value; the three special values are constructors of
  their own. The comparisons, \<open>Math.abs\<close> and the rounding of \<open>toFixed\<close> used by
  \<open>utils.js\<close> are exact on that value. Negative zero is not distinguished from zero:
  none of the operations below tells them apart.
\<close>

datatype jsnum = Fin rat | PosInf | NegInf | NaN

text \<open>
  The value read from a numeric field of a decoded record such as
  \<open>coin.price_change_percentage_24h\<close>: a number, \<open>null\<close>, or \<open>undefined\<close> when the
  property is missing.
\<close>

datatype jsval = Undefined | Null | Num jsnum

text \<open>\<open>ToNumber\<close>: \<open>null\<close> is 0 and \<open>undefined\<close> is \<open>NaN\<close>.\<close>

fun toNumber :: "jsval \<Rightarrow> jsnum" where
  "toNumber Undefined = NaN"
| "toNumber Null = Fin 0"
| "toNumber (Num n) = n"

text \<open>The global \<open>isNaN(v)\<close> converts its argument with \<open>ToNumber\<close> first.\<close>

definition isNaN :: "jsval \<Rightarrow> bool" where
  "isNaN v = (toNumber v = NaN)"

text \<open>Truthiness: \<open>undefined\<close>, \<open>null\<close>, zero and \<open>NaN\<close> are falsy.\<close>

fun truthy :: "jsval \<Rightarrow> bool" where
  "truthy Undefined = False"
| "truthy Null = False"
| "truthy (Num (Fin r)) = (r \<noteq> 0)"
| "truthy (Num NaN) = False"
| "truthy (Num _) = True"

text \<open>\<open>a || b\<close> is \<open>a\<close> when \<open>a\<close> is truthy and \<open>b\<close> otherwise.\<close>

definition js_or :: "jsval \<Rightarrow> jsval \<Rightarrow> jsval" where
  "js_or a b = (if truthy a then a else b)"

text \<open>\<open>a < b\<close> on numbers: false as soon as one side is \<open>NaN\<close>.\<close>

fun num_less :: "jsnum \<Rightarrow> jsnum \<Rightarrow> bool" where
  "num_less NaN _ = False"
| "num_less _ NaN = False"
| "num_less (Fin a) (Fin b) = (a < b)"
| "num_less NegInf NegInf = False"
| "num_less NegInf _ = True"
| "num_less _ NegInf = False"
| "num_less PosInf _ = False"
| "num_less _ PosInf = True"

text \<open>\<open>a > b\<close>, \<open>a < b\<close> and \<open>a >= b\<close> on values, both sides converted by \<open>ToNumber\<close>.\<close>

definition js_gt :: "jsval \<Rightarrow> jsval \<Rightarrow> bool" where
  "js_gt a b = num_less (toNumber b) (toNumber a)"

definition js_lt :: "jsval \<Rightarrow> jsval \<Rightarrow> bool" where
  "js_lt a b = num_less (toNumber a) (toNumber b)"

definition js_ge :: "jsval \<Rightarrow> jsval \<Rightarrow> bool" where
  "js_ge a b = (toNumber a \<noteq> NaN \<and> toNumber b \<noteq> NaN \<and> \<not> num_less (toNumber a) (toNumber b))"

fun Math_abs :: "jsnum \<Rightarrow> jsnum" where
  "Math_abs (Fin r) = Fin \<bar>r\<bar>"
| "Math_abs PosInf = PosInf"
| "Math_abs NegInf = PosInf"
| "Math_abs NaN = NaN"

subsection \<open>Decimal digits\<close>

definition digitChar :: "nat \<Rightarrow> char" where
  "digitChar d = ''0123456789'' ! d"

fun natToString :: "nat \<Rightarrow> string" where
  "natToString n =
     (if n < 10 then [digitChar n] else natToString (n div 10) @ [digitChar (n mod 10)])"

declare natToString.simps [simp del]

subsection \<open>\<open>Number.prototype.toFixed\<close>\<close>

text \<open>
  \<open>x.toFixed(f)\<close> for \<open>0 \<le> f \<le> 100\<close>, following the language definition: a non-finite
  \<open>x\<close> prints as its name; otherwise the sign is split off, and below \<open>10^21\<close> the
  integer \<open>n\<close> with \<open>n / 10^f\<close> nearest to \<open>x\<close> (the larger one on a tie) is printed
  with a point before its last \<open>f\<close> digits, padded with zeros to \<open>f + 1\<close> digits. From
  \<open>10^21\<close> on the result is the general number-to-string conversion, which is not
  modelled: it is the parameter \<open>numToString\<close>.
\<close>

definition fixedDigits :: "nat \<Rightarrow> nat \<Rightarrow> string" where
  "fixedDigits f n =
     (let m = natToString n;
          m = (if f \<noteq> 0 \<and> length m \<le> f then replicate (f + 1 - length m) CHR ''0'' @ m else m);
          k = length m
      in if f \<noteq> 0 then take (k - f) m @ ''.'' @ drop (k - f) m else m)"

definition toFixed :: "(rat \<Rightarrow> string) \<Rightarrow> jsnum \<Rightarrow> nat \<Rightarrow> string" where
  "toFixed numToString x f =
     (case x of
        NaN \<Rightarrow> ''NaN''
      | PosInf \<Rightarrow> ''Infinity''
      | NegInf \<Rightarrow> ''-Infinity''
      | Fin r \<Rightarrow>
          (if r < 0 then ''-'' else []) @
          (if 10 ^ 21 \<le> \<bar>r\<bar> then numToString \<bar>r\<bar>
           else fixedDigits f (nat \<lfloor>\<bar>r\<bar> * 10 ^ f + 1 / 2\<rfloor>)))"

section \<open>Formatter utilities (\<open>utils.js\<close>)\<close>

definition formatPercentage :: "(rat \<Rightarrow> string) \<Rightarrow> jsval \<Rightarrow> string" where
  "formatPercentage numToString change =
     (if change = Null \<or> change = Undefined \<or> isNaN change then ''N/A''
      else
        let formatted = toFixed numToString (Math_abs (toNumber change)) 2;
            sign = (if js_ge change (Num (Fin 0)) then ''+'' else ''-'')
        in sign @ formatted @ ''%'')"

definition getChangeArrow :: "jsval \<Rightarrow> string" where
  \<open>getChangeArrow change =
     (if js_gt change (Num (Fin 0)) then ''<i class="fas fa-arrow-up"></i>''
      else if js_lt change (Num (Fin 0)) then ''<i class="fas fa-arrow-down"></i>''
      else ''<i class="fas fa-minus"></i>'')\<close>

definition getChangeClass :: "jsval \<Rightarrow> string" where
  "getChangeClass change =
     (if js_gt change (Num (Fin 0)) then ''positive''
      else if js_lt change (Num (Fin 0)) then ''negative''
      else [])"

section \<open>Strings\<close>

text \<open>
  A string is the list of its code units, here the code units below 256 (Latin-1, which
  contains ASCII). On these \<open>toLowerCase\<close> adds 32 to the capital letters \<open>A\<close> to \<open>Z\<close>
  and \<open>U+00C0\<close> to \<open>U+00DE\<close> (the multiplication sign \<open>U+00D7\<close> apart), and
  \<open>trim\<close> strips tab, line feed, vertical tab, form feed, carriage return, space and
  the no-break space. Strings with code units from 256 on are outside the model.
\<close>

definition lowerChar :: "char \<Rightarrow> char" where
  "lowerChar c =
     (let n = (of_char c :: nat)
      in if (65 \<le> n \<and> n \<le> 90) \<or> (192 \<le> n \<and> n \<le> 222 \<and> n \<noteq> 215)
         then char_of (n + 32) else c)"

definition toLowerCase :: "string \<Rightarrow> string" where
  "toLowerCase s = map lowerChar s"

definition isWhiteSpace :: "char \<Rightarrow> bool" where
  "isWhiteSpace c = ((of_char c :: nat) \<in> {9, 10, 11, 12, 13, 32, 160})"

definition trim :: "string \<Rightarrow> string" where
  "trim s = rev (dropWhile isWhiteSpace (rev (dropWhile isWhiteSpace s)))"

fun startsWith :: "string \<Rightarrow> string \<Rightarrow> bool" where
  "startsWith s [] = True"
| "startsWith [] (d # t) = False"
| "startsWith (c # s) (d # t) = (c = d \<and> startsWith s t)"

text \<open>\<open>s.includes(t)\<close>: \<open>t\<close> starts at some position of \<open>s\<close>.\<close>

fun str_includes :: "string \<Rightarrow> string \<Rightarrow> bool" where
  "str_includes [] t = (t = [])"
| "str_includes (c # s) t = (startsWith (c # s) t \<or> str_includes s t)"

subsection \<open>Numbers as text\<close>

text \<open>The decimal digits of an integer, after a minus sign when it is negative.\<close>

definition intToString :: "int \<Rightarrow> string" where
  "intToString i = (if i < 0 then ''-'' @ natToString (nat (- i)) else natToString (nat i))"

text \<open>A safe integer: an integer of magnitude below \<open>2^53\<close>.\<close>

definition safeInteger :: "rat \<Rightarrow> bool" where
  "safeInteger r = (of_int \<lfloor>r\<rfloor> = r \<and> \<bar>r\<bar> < 2 ^ 53)"

text \<open>
  The template literal \<open>`${n}`\<close> and \<open>n.toString()\<close> of a number \<open>n\<close>. The three
  special values print as their names and a safe integer prints as its decimal digits.
  Every other finite number (a fraction, or a magnitude from \<open>2^53\<close> on, where the
  shortest digits that identify the double are printed, in exponent form from
  \<open>10^21\<close> on) is printed by the runtime's general conversion, which is not modelled:
  it is the parameter \<open>numToString\<close>, the same as in \<open>toFixed\<close>.
\<close>

definition Number_toString :: "(rat \<Rightarrow> string) \<Rightarrow> jsnum \<Rightarrow> string" where
  "Number_toString numToString x =
     (case x of
        NaN \<Rightarrow> ''NaN''
      | PosInf \<Rightarrow> ''Infinity''
      | NegInf \<Rightarrow> ''-Infinity''
      | Fin r \<Rightarrow> if safeInteger r then intToString \<lfloor>r\<rfloor> else numToString r)"

text \<open>\<open>a <= b\<close> on numbers: false as soon as one side is \<open>NaN\<close>.\<close>

definition num_le :: "jsnum \<Rightarrow> jsnum \<Rightarrow> bool" where
  "num_le a b = (a \<noteq> NaN \<and> b \<noteq> NaN \<and> \<not> num_less b a)"

section \<open>Coin records\<close>

text \<open>
  The fields of a decoded coin that the code below reads. The image, price, market
  capitalisation and rank only pass through external formatters and are left out.
\<close>

record coin =
  coin_id :: string
  name :: string
  symbol :: string
  price_change_percentage_24h :: jsval

section \<open>Fetch/cache layer (\<open>api.js\<close>)\<close>

subsection \<open>Decoded response bodies\<close>

datatype json =
    JNull
  | JBool bool
  | JNum jsnum
  | JStr string
  | JArr "json list"
  | JObj "(string \<times> json) list"

text \<open>Truthiness of a decoded body: every array and object is truthy, also an empty one.\<close>

fun truthy_json :: "json \<Rightarrow> bool" where
  "truthy_json JNull = False"
| "truthy_json (JBool b) = b"
| "truthy_json (JNum n) = truthy (Num n)"
| "truthy_json (JStr s) = (s \<noteq> [])"
| "truthy_json (JArr _) = True"
| "truthy_json (JObj _) = True"

subsection \<open>The network\<close>

text \<open>
  A URL is kept as its path and the name/value pairs of its query string. What
  \<open>fetch(url)\<close> does is the environment's choice: the promise rejects, or a response
  arrives with a status and a body that \<open>response.json()\<close> can decode or not.
\<close>

record url =
  path :: string
  params :: "(string \<times> string) list"

datatype fetch_reply =
    Rejected
  | Response nat "json option"

datatype api_error =
    FetchRejected
  | HttpError nat
  | BodyNotJson

text \<open>\<open>response.ok\<close> holds for the statuses 200 to 299.\<close>

definition response_ok :: "nat \<Rightarrow> bool" where
  "response_ok status = (200 \<le> status \<and> status \<le> 299)"

text \<open>
  \<open>makeRequest\<close> calls \<open>fetch\<close> once; its \<open>catch\<close> block logs the error and throws it
  again, so each failure is the result of the call.
\<close>

definition makeRequest :: "(url \<Rightarrow> fetch_reply) \<Rightarrow> url \<Rightarrow> api_error + json" where
  "makeRequest net u =
     (case net u of
        Rejected \<Rightarrow> Inl FetchRejected
      | Response status body \<Rightarrow>
          if \<not> response_ok status then Inl (HttpError status)
          else (case body of None \<Rightarrow> Inl BodyNotJson | Some d \<Rightarrow> Inr d))"

subsection \<open>The client and its cache\<close>

record cache_entry =
  data :: json
  timestamp :: int

record cryptoAPI =
  baseUrl :: string
  cache :: "string \<rightharpoonup> cache_entry"
  cacheTimeout :: int

definition BASE_URL :: string where
  "BASE_URL = ''https://api.coingecko.com/api/v3''"

definition COINS_LIST :: string where
  "COINS_LIST = ''/coins/markets''"

definition GLOBAL_DATA :: string where
  "GLOBAL_DATA = ''/global''"

definition COIN_HISTORY :: string where
  "COIN_HISTORY = ''/coins/{id}/market_chart''"

definition DEFAULT_PARAMS :: "(string \<times> string) list" where
  "DEFAULT_PARAMS =
     [(''vs_currency'', ''usd''), (''order'', ''market_cap_desc''), (''sparkline'', ''false'')]"

text \<open>The constructor: an empty cache and a timeout of five minutes in milliseconds.\<close>

definition new_CryptoAPI :: cryptoAPI where
  "new_CryptoAPI = \<lparr>baseUrl = BASE_URL, cache = Map.empty, cacheTimeout = 5 * 60 * 1000\<rparr>"

text \<open>
  \<open>getCachedData\<close> and \<open>setCachedData\<close> read \<open>Date.now()\<close>; the reading is the argument
  \<open>now\<close>. A miss and an expired entry both give \<open>null\<close>.
\<close>

definition getCachedData :: "cryptoAPI \<Rightarrow> int \<Rightarrow> string \<Rightarrow> json" where
  "getCachedData api now key =
     (case cache api key of
        Some cached \<Rightarrow> if now - timestamp cached < cacheTimeout api then data cached else JNull
      | None \<Rightarrow> JNull)"

definition setCachedData :: "cryptoAPI \<Rightarrow> int \<Rightarrow> string \<Rightarrow> json \<Rightarrow> cryptoAPI" where
  "setCachedData api now key d =
     api\<lparr>cache := (cache api)(key \<mapsto> \<lparr>data = d, timestamp = now\<rparr>)\<rparr>"

definition clearCache :: "cryptoAPI \<Rightarrow> cryptoAPI" where
  "clearCache api = api\<lparr>cache := Map.empty\<rparr>"

subsection \<open>\<open>String.prototype.replace\<close> with a string pattern\<close>

text \<open>
  Only the first occurrence is replaced, and in the replacement text \<open>$$\<close>, \<open>$&\<close>,
  \<open>$`\<close> and \<open>$'\<close> stand for a dollar sign, the match, the text before it and the text
  after it. With a string pattern there are no capture groups, so every other \<open>$\<close>
  is literal.
\<close>

fun getSubstitution :: "string \<Rightarrow> string \<Rightarrow> string \<Rightarrow> string \<Rightarrow> string" where
  "getSubstitution matched preceding following (c # d # r) =
     (if c = CHR ''$'' \<and> d = CHR ''$''
      then CHR ''$'' # getSubstitution matched preceding following r
      else if c = CHR ''$'' \<and> d = CHR ''&''
      then matched @ getSubstitution matched preceding following r
      else if c = CHR ''$'' \<and> d = CHR 0x60
      then preceding @ getSubstitution matched preceding following r
      else if c = CHR ''$'' \<and> d = CHR 0x27
      then following @ getSubstitution matched preceding following r
      else c # getSubstitution matched preceding following (d # r))"
| "getSubstitution matched preceding following r = r"

fun findFirst :: "string \<Rightarrow> string \<Rightarrow> (string \<times> string) option" where
  "findFirst pat [] = (if pat = [] then Some ([], []) else None)"
| "findFirst pat (c # s) =
     (if startsWith (c # s) pat then Some ([], drop (length pat) (c # s))
      else map_option (\<lambda>(preceding, following). (c # preceding, following)) (findFirst pat s))"

definition js_replace :: "string \<Rightarrow> string \<Rightarrow> string \<Rightarrow> string" where
  "js_replace s pat replacement =
     (case findFirst pat s of
        None \<Rightarrow> s
      | Some (preceding, following) \<Rightarrow>
          preceding @ getSubstitution pat preceding following replacement @ following)"

subsection \<open>The three fetch operations\<close>

text \<open>
  Each operation is given the runtime's number conversion \<open>nts\<close> (see
  \<open>Number_toString\<close>), the network \<open>net\<close>, the client, the clock reading \<open>now\<close> at the
  call (used by the cache look-up) and the reading \<open>later\<close> when the body has been
  decoded (used by the store). It yields what the promise settles to, the client
  afterwards and the URLs handed to \<open>fetch\<close>. One call is taken as a whole: no other
  task touches the cache between its request and its response. Page, page size and day
  count are numbers; the default arguments are those of the signatures: page 1 with 50
  per page, and 7 days.
\<close>

record call =
  returned :: "api_error + json"
  client :: cryptoAPI
  fetched :: "url list"

definition getCryptocurrencies ::
  "(rat \<Rightarrow> string) \<Rightarrow> (url \<Rightarrow> fetch_reply) \<Rightarrow> cryptoAPI \<Rightarrow> int \<Rightarrow> int \<Rightarrow> jsnum \<Rightarrow> jsnum \<Rightarrow>
   call" where
  "getCryptocurrencies nts net api now later page perPage =
     (let cacheKey =
            ''coins_'' @ Number_toString nts page @ ''_'' @ Number_toString nts perPage;
          cached = getCachedData api now cacheKey
      in if truthy_json cached then \<lparr>returned = Inr cached, client = api, fetched = []\<rparr>
         else
           let u = \<lparr>path = baseUrl api @ COINS_LIST,
                    params = DEFAULT_PARAMS @
                      [(''page'', Number_toString nts page),
                       (''per_page'', Number_toString nts perPage)]\<rparr>
           in case makeRequest net u of
                Inl e \<Rightarrow> \<lparr>returned = Inl e, client = api, fetched = [u]\<rparr>
              | Inr d \<Rightarrow>
                  \<lparr>returned = Inr d, client = setCachedData api later cacheKey d, fetched = [u]\<rparr>)"

definition getGlobalData ::
  "(url \<Rightarrow> fetch_reply) \<Rightarrow> cryptoAPI \<Rightarrow> int \<Rightarrow> int \<Rightarrow> call" where
  "getGlobalData net api now later =
     (let cacheKey = ''global_data'';
          cached = getCachedData api now cacheKey
      in if truthy_json cached then \<lparr>returned = Inr cached, client = api, fetched = []\<rparr>
         else
           let u = \<lparr>path = baseUrl api @ GLOBAL_DATA, params = []\<rparr>
           in case makeRequest net u of
                Inl e \<Rightarrow> \<lparr>returned = Inl e, client = api, fetched = [u]\<rparr>
              | Inr d \<Rightarrow>
                  \<lparr>returned = Inr d, client = setCachedData api later cacheKey d, fetched = [u]\<rparr>)"

definition getCoinHistory ::
  "(rat \<Rightarrow> string) \<Rightarrow> (url \<Rightarrow> fetch_reply) \<Rightarrow> cryptoAPI \<Rightarrow> int \<Rightarrow> int \<Rightarrow> string \<Rightarrow> jsnum \<Rightarrow>
   call" where
  "getCoinHistory nts net api now later coinId days =
     (let cacheKey = ''history_'' @ coinId @ ''_'' @ Number_toString nts days;
          cached = getCachedData api now cacheKey
      in if truthy_json cached then \<lparr>returned = Inr cached, client = api, fetched = []\<rparr>
         else
           let u = \<lparr>path = baseUrl api @ js_replace COIN_HISTORY ''{id}'' coinId,
                    params = [(''vs_currency'', ''usd''), (''days'', Number_toString nts days),
                      (''interval'', if num_le days (Fin 1) then ''hourly'' else ''daily'')]\<rparr>
           in case makeRequest net u of
                Inl e \<Rightarrow> \<lparr>returned = Inl e, client = api, fetched = [u]\<rparr>
              | Inr d \<Rightarrow>
                  \<lparr>returned = Inr d, client = setCachedData api later cacheKey d, fetched = [u]\<rparr>)"

subsection \<open>Searching a coin list\<close>

text \<open>
  \<open>searchCoins\<close> is a method of the client too; the client it is called on is returned
  beside the result, so that what the method does to it can be stated. For a string
  \<open>query\<close> the test \<open>!query\<close> holds exactly for the empty string.
\<close>

definition searchCoins :: "cryptoAPI \<Rightarrow> string \<Rightarrow> coin list \<Rightarrow> coin list \<times> cryptoAPI" where
  "searchCoins api query allCoins =
     (if query = [] \<or> trim query = [] then (allCoins, api)
      else
        let searchTerm = trim (toLowerCase query)
        in (filter (\<lambda>coin. str_includes (toLowerCase (name coin)) searchTerm \<or>
                            str_includes (toLowerCase (symbol coin)) searchTerm) allCoins,
            api))"

section \<open>Page state\<close>

text \<open>
  The state of the favourites store, the search coordinator and the view orchestrator,
  the favourites item of \<open>localStorage\<close>, and the parts of the document they write.
  A \<open>Set\<close> of identifiers is the list of its elements in insertion order, without
  repetition. An element's \<open>style.display\<close> and \<open>textContent\<close> are strings, as in the
  code. A table row is kept as the values the row template interpolates for the
  identifier, the change cell and the favourite button; the last one changes when the
  scripts restyle the button. Notifications are kept as the list of those appended to the
  body so far, each with its message and type (timers take each off the document a few
  seconds later). The elements the scripts look up by id or selector are there, and coin
  identifiers are plain (free of the double quote, the backslash and line breaks), so that
  the selector \<open>[data-coin-id="..."]\<close> built from one is valid and selects the elements
  carrying that identifier.
\<close>

datatype view = AllCoins | Favorites

record coin_row =
  row_coin_id :: string
  row_changeClass :: string
  row_changeArrow :: string
  row_changeText :: string
  row_favoriteActive :: bool

datatype table_body = NoCoinsFound | Rows "coin_row list"

record page =
  favorites :: "string list"
  currentView :: view
  storedFavorites :: "string list option"
  favoritesCountText :: nat
  coins :: "coin list"
  isLoading :: bool
  searchAllCoins :: "coin list"
  searchFilteredCoins :: "coin list"
  cryptoTableBody :: table_body
  favoritesTableBody :: "coin_row list"
  totalMarketCapText :: string
  totalCoinsText :: string
  errorMessageDisplay :: string
  errorMessageText :: string
  loadingSpinnerDisplay :: string
  tableContainerDisplay :: string
  emptyFavoritesStateDisplay :: string
  favoritesTableContainerDisplay :: string
  notifications :: "(string \<times> string) list"

text \<open>
  Formatting done by the runtime and not modelled further: the general number-to-string
  conversion, \<open>Intl.NumberFormat\<close> in compact notation, and \<open>toLocaleString\<close>.
\<close>

record runtime =
  numberToString :: "rat \<Rightarrow> string"
  compactFormat :: "jsnum \<Rightarrow> string"
  localeString :: "jsnum \<Rightarrow> string"

subsection \<open>Loading and error indicators (\<open>utils.js\<close>)\<close>

definition toggleLoading :: "bool \<Rightarrow> page \<Rightarrow> page" where
  "toggleLoading show p =
     (if show then p\<lparr>loadingSpinnerDisplay := ''flex'', tableContainerDisplay := ''none''\<rparr>
      else p\<lparr>loadingSpinnerDisplay := ''none'', tableContainerDisplay := ''block''\<rparr>)"

definition showError :: "string \<Rightarrow> page \<Rightarrow> page" where
  "showError message p =
     p\<lparr>errorMessageText := message, errorMessageDisplay := ''flex'',
       tableContainerDisplay := ''none'', loadingSpinnerDisplay := ''none''\<rparr>"

definition hideError :: "page \<Rightarrow> page" where
  "hideError p = p\<lparr>errorMessageDisplay := ''none''\<rparr>"

text \<open>\<open>formatCurrency(value, true)\<close>: the compact formatter, unless the value is absent.\<close>

definition formatCurrencyCompact :: "runtime \<Rightarrow> jsval \<Rightarrow> string" where
  "formatCurrencyCompact rt v =
     (if v = Null \<or> v = Undefined \<or> isNaN v then ''N/A'' else compactFormat rt (toNumber v))"

section \<open>Favourites store (\<open>favorites.js\<close>)\<close>

definition set_has :: "string list \<Rightarrow> string \<Rightarrow> bool" where
  "set_has xs x = (x \<in> set xs)"


definition set_delete :: "string list \<Rightarrow> string \<Rightarrow> string list" where
  "set_delete xs x = filter (\<lambda>y. y \<noteq> x) xs"

text \<open>
  \<open>saveFavorites\<close> writes the set to \<open>localStorage\<close> and then refreshes the counters;
  when the write throws (\<open>writable\<close> is false) the \<open>catch\<close> block only logs, and neither
  happens.
\<close>

definition updateFavoritesCount :: "page \<Rightarrow> page" where
  "updateFavoritesCount p = p\<lparr>favoritesCountText := length (favorites p)\<rparr>"

definition saveFavorites :: "bool \<Rightarrow> page \<Rightarrow> page" where
  "saveFavorites writable p =
     (if writable then updateFavoritesCount (p\<lparr>storedFavorites := Some (favorites p)\<rparr>) else p)"

definition isFavorite :: "page \<Rightarrow> string \<Rightarrow> bool" where
  "isFavorite p coinId = set_has (favorites p) coinId"

text \<open>
  \<open>updateFavoriteButton\<close> restyles every favourite button inside an element whose
  \<open>data-coin-id\<close> is the identifier: the buttons of the coin's rows in both tables.
  \<open>initializeFavoriteButtons\<close> does so for each coin of a list, in order.
\<close>

definition restyle :: "string \<Rightarrow> bool \<Rightarrow> coin_row \<Rightarrow> coin_row" where
  "restyle coinId active row =
     (if row_coin_id row = coinId then row\<lparr>row_favoriteActive := active\<rparr> else row)"

definition updateFavoriteButton :: "string \<Rightarrow> bool \<Rightarrow> page \<Rightarrow> page" where
  "updateFavoriteButton coinId active p =
     p\<lparr>cryptoTableBody :=
         (case cryptoTableBody p of
            NoCoinsFound \<Rightarrow> NoCoinsFound
          | Rows rows \<Rightarrow> Rows (map (restyle coinId active) rows)),
       favoritesTableBody := map (restyle coinId active) (favoritesTableBody p)\<rparr>"

definition initializeFavoriteButtons :: "coin list \<Rightarrow> page \<Rightarrow> page" where
  "initializeFavoriteButtons cs p =
     fold (\<lambda>coin q. updateFavoriteButton (coin_id coin) (isFavorite q (coin_id coin)) q) cs p"

definition showFavoriteNotification :: "string \<Rightarrow> string \<Rightarrow> page \<Rightarrow> page" where
  "showFavoriteNotification message kind p =
     p\<lparr>notifications := notifications p @ [(message, kind)]\<rparr>"

definition filterFavorites :: "page \<Rightarrow> coin list \<Rightarrow> coin list" where
  "filterFavorites p cs = filter (\<lambda>coin. isFavorite p (coin_id coin)) cs"

subsection \<open>Rows\<close>

text \<open>
  Both row templates coerce the change with \<open>|| 0\<close> before they format it. The row of
  the favourites table draws its button as active without asking the store.
\<close>

definition createCoinRow :: "runtime \<Rightarrow> page \<Rightarrow> coin \<Rightarrow> coin_row" where
  "createCoinRow rt p coin =
     (let priceChange = js_or (price_change_percentage_24h coin) (Num (Fin 0));
          changeClass = getChangeClass priceChange;
          changeArrow = getChangeArrow priceChange;
          isFav = isFavorite p (coin_id coin)
      in \<lparr>row_coin_id = coin_id coin, row_changeClass = changeClass,
          row_changeArrow = changeArrow,
          row_changeText = formatPercentage (numberToString rt) priceChange,
          row_favoriteActive = isFav\<rparr>)"

definition createFavoriteCoinRow :: "runtime \<Rightarrow> coin \<Rightarrow> coin_row" where
  "createFavoriteCoinRow rt coin =
     (let priceChange = js_or (price_change_percentage_24h coin) (Num (Fin 0));
          changeClass = getChangeClass priceChange;
          changeArrow = getChangeArrow priceChange
      in \<lparr>row_coin_id = coin_id coin, row_changeClass = changeClass,
          row_changeArrow = changeArrow,
          row_changeText = formatPercentage (numberToString rt) priceChange,
          row_favoriteActive = True\<rparr>)"

definition displayFavorites :: "runtime \<Rightarrow> coin list \<Rightarrow> page \<Rightarrow> page" where
  "displayFavorites rt favoriteCoins p =
     p\<lparr>favoritesTableBody := map (createFavoriteCoinRow rt) favoriteCoins\<rparr>"

text \<open>
  \<open>loadFavoritesView\<close> asks the client for page 1 with 250 coins; \<open>allCoinsResult\<close> is
  what that call settles to. Its own \<open>catch\<close> block shows the error.
\<close>

definition loadFavoritesView :: "runtime \<Rightarrow> api_error + coin list \<Rightarrow> page \<Rightarrow> page" where
  "loadFavoritesView rt allCoinsResult p =
     (if length (favorites p) = 0
      then p\<lparr>emptyFavoritesStateDisplay := ''block'', favoritesTableContainerDisplay := ''none''\<rparr>
      else
        let p1 = toggleLoading True p
        in case allCoinsResult of
             Inl e \<Rightarrow>
               toggleLoading False (showError ''Failed to load favorite cryptocurrencies.'' p1)
           | Inr allCoins \<Rightarrow>
               let favoriteCoins = filterFavorites p1 allCoins;
                   p2 = (if length favoriteCoins = 0
                         then p1\<lparr>emptyFavoritesStateDisplay := ''block'',
                                 favoritesTableContainerDisplay := ''none''\<rparr>
                         else displayFavorites rt favoriteCoins
                                (p1\<lparr>emptyFavoritesStateDisplay := ''none'',
                                    favoritesTableContainerDisplay := ''block''\<rparr>))
               in toggleLoading False p2)"

subsection \<open>Changing the set\<close>

text \<open>
  What one call of a method of the store meets outside the state: whether the write to
  \<open>localStorage\<close> succeeds, the runtime's formatters, the network, the reading of a
  decoded listing as coin records (the rows are built from records here), and the clock
  readings at the call and when a reply has been decoded.
\<close>

record env =
  storageWritable :: bool
  formats :: runtime
  network :: "url \<Rightarrow> fetch_reply"
  asCoins :: "json \<Rightarrow> coin list"
  clockAtCall :: int
  clockAtReply :: int

text \<open>
  The methods below also use the client, so they take and give the client beside the page.
  \<open>loadFavoritesViewWith\<close> is \<open>loadFavoritesView\<close> with the call it makes: the client
  is asked for page 1 with 250 coins only when there are favourites.
\<close>

fun loadFavoritesViewWith :: "env \<Rightarrow> cryptoAPI \<times> page \<Rightarrow> cryptoAPI \<times> page" where
  "loadFavoritesViewWith ev (api, p) =
     (let c = getCryptocurrencies (numberToString (formats ev)) (network ev) api
                (clockAtCall ev) (clockAtReply ev) (Fin 1) (Fin 250)
      in (if length (favorites p) = 0 then api else client c,
          loadFavoritesView (formats ev) (map_sum id (asCoins ev) (returned c)) p))"

text \<open>
  \<open>refreshFavorites\<close> clears the client's cache, awaits \<open>loadFavoritesView\<close> and then
  shows a notification. \<open>addFavorite\<close> and \<open>removeFavorite\<close> start it in the favourites
  view without awaiting it; the state given for them is the one reached when that task has
  finished, nothing else having run in between.
\<close>

fun refreshFavorites :: "env \<Rightarrow> cryptoAPI \<times> page \<Rightarrow> cryptoAPI \<times> page" where
  "refreshFavorites ev (api, p) =
     (if currentView p = Favorites
      then case loadFavoritesViewWith ev (clearCache api, p) of
             (api1, p1) \<Rightarrow> (api1, showFavoriteNotification ''Favorites refreshed!'' ''success'' p1)
      else (api, p))"


fun removeFavorite :: "env \<Rightarrow> string \<Rightarrow> cryptoAPI \<times> page \<Rightarrow> cryptoAPI \<times> page" where
  "removeFavorite ev coinId (api, p) =
     (let p1 = p\<lparr>favorites := set_delete (favorites p) coinId\<rparr>;
          p2 = saveFavorites (storageWritable ev) p1;
          p3 = updateFavoriteButton coinId False p2;
          p4 = showFavoriteNotification ''Removed from favorites!'' ''info'' p3
      in if currentView p4 = Favorites then refreshFavorites ev (api, p4) else (api, p4))"


section \<open>View orchestrator (\<open>main.js\<close>) and search coordinator (\<open>search.js\<close>)\<close>

definition displayCryptocurrencies :: "runtime \<Rightarrow> coin list \<Rightarrow> page \<Rightarrow> page" where
  "displayCryptocurrencies rt cs p =
     (if length cs = 0 then p\<lparr>cryptoTableBody := NoCoinsFound\<rparr>
      else p\<lparr>cryptoTableBody := Rows (map (createCoinRow rt p) cs)\<rparr>)"

text \<open>
  The decoded body of the global endpoint: its \<open>data\<close> property is missing (or falsy), or
  holds the two figures the header shows.
\<close>

record global_stats =
  total_market_cap_usd :: jsval
  active_cryptocurrencies :: jsval

datatype global_body = NoData | Data global_stats

text \<open>
  \<open>updateGlobalStats(globalData)\<close>, with \<open>None\<close> for \<open>null\<close>. An empty string from
  \<open>toLocaleString\<close> is falsy and gives the placeholder as well.
\<close>

definition updateGlobalStats :: "runtime \<Rightarrow> global_body option \<Rightarrow> page \<Rightarrow> page" where
  "updateGlobalStats rt globalData p =
     (case globalData of
        Some (Data d) \<Rightarrow>
          p\<lparr>totalMarketCapText := formatCurrencyCompact rt (total_market_cap_usd d),
            totalCoinsText :=
              (if active_cryptocurrencies d = Null \<or> active_cryptocurrencies d = Undefined
               then ''N/A''
               else let s = localeString rt (toNumber (active_cryptocurrencies d))
                    in if s = [] then ''N/A'' else s)\<rparr>
      | _ \<Rightarrow> p\<lparr>totalMarketCapText := ''N/A'', totalCoinsText := ''N/A''\<rparr>)"

definition setAllCoins :: "coin list \<Rightarrow> page \<Rightarrow> page" where
  "setAllCoins cs p = p\<lparr>searchAllCoins := cs, searchFilteredCoins := cs\<rparr>"

text \<open>
  \<open>loadData\<close> starts \<open>getCryptocurrencies()\<close> and \<open>getGlobalData()\<close> together and awaits
  both with \<open>Promise.all\<close>. The arguments \<open>coinsResult\<close> and \<open>globalResult\<close> are what
  the two promises settle to, the listing decoded as coin records; \<open>favoritesResult\<close>
  is the same for the call made by \<open>loadFavoritesView\<close>. The handler
  \<open>.catch(() => null)\<close> turns a rejected global promise into \<open>null\<close>, so only a
  rejected listing makes \<open>Promise.all\<close> reject and control enter the \<open>catch\<close> block. The
  \<open>finally\<close> block lowers the flag on both paths.
\<close>

definition loadData ::
  "runtime \<Rightarrow> api_error + coin list \<Rightarrow> api_error + global_body \<Rightarrow> api_error + coin list \<Rightarrow>
   page \<Rightarrow> page" where
  "loadData rt coinsResult globalResult favoritesResult p =
     (let p1 = p\<lparr>isLoading := True\<rparr>;
          globalData = (case globalResult of Inl e \<Rightarrow> None | Inr g \<Rightarrow> Some g);
          p2 = (case coinsResult of
                  Inl e \<Rightarrow>
                    toggleLoading False (showError ''Failed to load data. Please try again.'' p1)
                | Inr coinsData \<Rightarrow>
                    let p3 = p1\<lparr>coins := coinsData\<rparr>;
                        p4 = (if currentView p3 = Favorites
                              then loadFavoritesView rt favoritesResult p3
                              else displayCryptocurrencies rt (coins p3) p3);
                        p5 = updateGlobalStats rt globalData p4;
                        p6 = setAllCoins (coins p5) p5;
                        p7 = initializeFavoriteButtons (coins p6) p6
                    in toggleLoading False p7)
      in p2\<lparr>isLoading := False\<rparr>)"

text \<open>
  The spec names three states of the orchestrator; the code keeps the flag \<open>isLoading\<close>
  and the error banner. A load in flight is \<open>Loading\<close>; otherwise a displayed banner is
  \<open>Error\<close> and a hidden one \<open>Idle\<close>.
\<close>

datatype orchestrator_state = Idle | Loading | Error

definition orchestratorState :: "page \<Rightarrow> orchestrator_state" where
  "orchestratorState p =
     (if isLoading p then Loading
      else if errorMessageDisplay p = ''flex'' then Error
      else Idle)"

section \<open>Request shapes\<close>

text \<open>
  The three operations side by side, for stating what holds of all of them: a request is
  one of their argument lists, \<open>cacheKey\<close> and \<open>requestUrl\<close> are the key and the URL
  the operation builds from it, and \<open>perform\<close> calls the operation.
\<close>

datatype request =
    Listing jsnum jsnum
  | Global
  | History string jsnum

fun cacheKey :: "(rat \<Rightarrow> string) \<Rightarrow> request \<Rightarrow> string" where
  "cacheKey nts (Listing page perPage) =
     ''coins_'' @ Number_toString nts page @ ''_'' @ Number_toString nts perPage"
| "cacheKey nts Global = ''global_data''"
| "cacheKey nts (History coinId days) =
     ''history_'' @ coinId @ ''_'' @ Number_toString nts days"

fun requestUrl :: "(rat \<Rightarrow> string) \<Rightarrow> cryptoAPI \<Rightarrow> request \<Rightarrow> url" where
  "requestUrl nts api (Listing page perPage) =
     \<lparr>path = baseUrl api @ COINS_LIST,
      params = DEFAULT_PARAMS @
        [(''page'', Number_toString nts page), (''per_page'', Number_toString nts perPage)]\<rparr>"
| "requestUrl nts api Global = \<lparr>path = baseUrl api @ GLOBAL_DATA, params = []\<rparr>"
| "requestUrl nts api (History coinId days) =
     \<lparr>path = baseUrl api @ js_replace COIN_HISTORY ''{id}'' coinId,
      params = [(''vs_currency'', ''usd''), (''days'', Number_toString nts days),
        (''interval'', if num_le days (Fin 1) then ''hourly'' else ''daily'')]\<rparr>"

fun perform ::
  "(rat \<Rightarrow> string) \<Rightarrow> (url \<Rightarrow> fetch_reply) \<Rightarrow> cryptoAPI \<Rightarrow> int \<Rightarrow> int \<Rightarrow> request \<Rightarrow> call" where
  "perform nts net api now later (Listing page perPage) =
     getCryptocurrencies nts net api now later page perPage"
| "perform nts net api now later Global = getGlobalData net api now later"
| "perform nts net api now later (History coinId days) =
     getCoinHistory nts net api now later coinId days"

text \<open>A request all of whose numbers are safe integers.\<close>

fun safeNumber :: "jsnum \<Rightarrow> bool" where
  "safeNumber (Fin r) = safeInteger r"
| "safeNumber x = False"

fun safeRequest :: "request \<Rightarrow> bool" where
  "safeRequest (Listing page perPage) = (safeNumber page \<and> safeNumber perPage)"
| "safeRequest Global = True"
| "safeRequest (History coinId days) = safeNumber days"

text \<open>The body the three operations have in common, for a given key and URL.\<close>

definition cachedFetch ::
  "(url \<Rightarrow> fetch_reply) \<Rightarrow> cryptoAPI \<Rightarrow> int \<Rightarrow> int \<Rightarrow> string \<Rightarrow> url \<Rightarrow> call" where
  "cachedFetch net api now later key u =
     (if truthy_json (getCachedData api now key)
      then \<lparr>returned = Inr (getCachedData api now key), client = api, fetched = []\<rparr>
      else case makeRequest net u of
             Inl e \<Rightarrow> \<lparr>returned = Inl e, client = api, fetched = [u]\<rparr>
           | Inr d \<Rightarrow> \<lparr>returned = Inr d, client = setCachedData api later key d, fetched = [u]\<rparr>)"

text \<open>A network that gives every request the same reply.\<close>

definition alwaysReply :: "fetch_reply \<Rightarrow> url \<Rightarrow> fetch_reply" where
  "alwaysReply r u = r"

section \<open>Substring search, as the spec words it\<close>

text \<open>\<open>t\<close> occurs in \<open>s\<close>: some text before it and some text after it make up \<open>s\<close>.\<close>

definition occursIn :: "string \<Rightarrow> string \<Rightarrow> bool" where
  "occursIn t s = (\<exists>preceding following. s = preceding @ t @ following)"

text \<open>A case-insensitive occurrence compares the lower-cased texts.\<close>

definition occursInIgnoringCase :: "string \<Rightarrow> string \<Rightarrow> bool" where
  "occursInIgnoringCase t s = occursIn (toLowerCase t) (toLowerCase s)"

definition blank :: "string \<Rightarrow> bool" where
  "blank q = list_all isWhiteSpace q"

section \<open>A starting state for the examples\<close>

text \<open>
  The state once the constructors have run on an empty \<open>localStorage\<close>: no favourites,
  the view of all coins, no coins loaded. What the document shows before the scripts
  write to it is not fixed by them; the text and display fields start empty here.
\<close>

definition initialPage :: page where
  "initialPage =
     \<lparr>favorites = [], currentView = AllCoins, storedFavorites = None, favoritesCountText = 0,
      coins = [], isLoading = False, searchAllCoins = [], searchFilteredCoins = [],
      cryptoTableBody = Rows [], favoritesTableBody = [],
      totalMarketCapText = [], totalCoinsText = [],
      errorMessageDisplay = [], errorMessageText = [],
      loadingSpinnerDisplay = [], tableContainerDisplay = [],
      emptyFavoritesStateDisplay = [], favoritesTableContainerDisplay = [],
      notifications = []\<rparr>"

text \<open>A number conversion that prints nothing; the examples do not reach it.\<close>

definition noText :: "rat \<Rightarrow> string" where
  "noText r = []"

text \<open>A runtime whose three formatters print nothing; the examples do not reach them.\<close>

definition silentRuntime :: runtime where
  "silentRuntime =
     \<lparr>numberToString = (\<lambda>r. []), compactFormat = (\<lambda>n. []), localeString = (\<lambda>n. [])\<rparr>"

text \<open>
  An environment in which the storage can be written, every request is rejected and no
  coin is read from a body.
\<close>

definition offlineEnv :: env where
  "offlineEnv =
     \<lparr>storageWritable = True, formats = silentRuntime, network = alwaysReply Rejected,
      asCoins = (\<lambda>d. []), clockAtCall = 0, clockAtReply = 0\<rparr>"

definition bitcoin :: coin where
  "bitcoin =
     \<lparr>coin_id = ''bitcoin'', name = ''Bitcoin'', symbol = ''btc'',
      price_change_percentage_24h = Num (Fin (- 5 / 2))\<rparr>"

definition ethereum :: coin where
  "ethereum =
     \<lparr>coin_id = ''ethereum'', name = ''Ethereum'', symbol = ''eth'',
      price_change_percentage_24h = Null\<rparr>"

section \<open>Formatting facts\<close>

lemma floor_501_half: "\<lfloor>501 / 2 :: rat\<rfloor> = 250"
  by code_simp

lemma floor_half: "\<lfloor>1 / 2 :: rat\<rfloor> = 0"
  by code_simp

lemma fixedDigits_250: "fixedDigits 2 250 = ''2.50''"
  by code_simp

lemma fixedDigits_0: "fixedDigits 2 0 = ''0.00''"
  by code_simp

lemma formatPercentage_minus_2_5: "formatPercentage nts (Num (Fin (- 5 / 2))) = ''-2.50%''"
  by (simp add: formatPercentage_def isNaN_def toFixed_def js_ge_def floor_501_half
      fixedDigits_250)

lemma formatPercentage_zero: "formatPercentage nts (Num (Fin 0)) = ''+0.00%''"
  by (simp add: formatPercentage_def isNaN_def toFixed_def js_ge_def fixedDigits_0 floor_half)

section \<open>Rendering a change\<close>

text \<open>
  Claim C9. For a coin whose 24-hour change is \<open>-2.5\<close> the change is rendered as
  \<open>-2.50%\<close>, the style class is \<open>negative\<close> and the indicator is the arrow-down icon:
  this is what the three formatters give at \<open>-2.5\<close>, whatever the runtime's conversion
  of large numbers is, and what both row templates put into the row of such a coin.
\<close>

theorem negative_change_rendering:
  \<open>formatPercentage nts (Num (Fin (- 5 / 2))) = ''-2.50%'' \<and>
   getChangeClass (Num (Fin (- 5 / 2))) = ''negative'' \<and>
   getChangeArrow (Num (Fin (- 5 / 2))) = ''<i class="fas fa-arrow-down"></i>'' \<and>
   createCoinRow rt p (c\<lparr>price_change_percentage_24h := Num (Fin (- 5 / 2))\<rparr>) =
     \<lparr>row_coin_id = coin_id c, row_changeClass = ''negative'',
      row_changeArrow = ''<i class="fas fa-arrow-down"></i>'', row_changeText = ''-2.50%'',
      row_favoriteActive = isFavorite p (coin_id c)\<rparr> \<and>
   createFavoriteCoinRow rt (c\<lparr>price_change_percentage_24h := Num (Fin (- 5 / 2))\<rparr>) =
     \<lparr>row_coin_id = coin_id c, row_changeClass = ''negative'',
      row_changeArrow = ''<i class="fas fa-arrow-down"></i>'', row_changeText = ''-2.50%'',
      row_favoriteActive = True\<rparr>\<close>
  using formatPercentage_minus_2_5 [of nts] formatPercentage_minus_2_5 [of "numberToString rt"]
  by (simp add: getChangeClass_def getChangeArrow_def js_gt_def js_lt_def createCoinRow_def
      createFavoriteCoinRow_def js_or_def)

lemma js_or_zero_number: "\<exists>n. js_or v (Num (Fin 0)) = Num n \<and> n \<noteq> NaN"
  by (cases v rule: truthy.cases) (simp_all add: js_or_def)

lemma js_or_zero_absent:
  "v = Null \<or> v = Undefined \<Longrightarrow> js_or v (Num (Fin 0)) = Num (Fin 0)"
  by (auto simp: js_or_def)

lemma formatPercentage_number_not_NA:
  "n \<noteq> NaN \<Longrightarrow> formatPercentage nts (Num n) \<noteq> ''N/A''"
  by (simp add: formatPercentage_def isNaN_def Let_def)

lemma row_change_not_NA: "formatPercentage nts (js_or v (Num (Fin 0))) \<noteq> ''N/A''"
  using js_or_zero_number [of v] formatPercentage_number_not_NA by metis

text \<open>
  Claim C10. A coin whose 24-hour change is absent (\<open>null\<close> or \<open>undefined\<close>) gets, in
  both row templates, the text \<open>+0.00%\<close>, the empty style class (so neither \<open>positive\<close>
  nor \<open>negative\<close>) and the minus icon, because the templates replace the absent value
  by 0 first. Whatever the field holds (a number, \<open>NaN\<close> and the infinities included,
  \<open>null\<close> or \<open>undefined\<close>), the text of a row is never \<open>N/A\<close>. And
  \<open>formatPercentage\<close> gives a zero change the sign \<open>+\<close>.
\<close>

theorem absent_change_rendering:
  \<open>(price_change_percentage_24h c = Null \<or> price_change_percentage_24h c = Undefined \<longrightarrow>
      createCoinRow rt p c =
        \<lparr>row_coin_id = coin_id c, row_changeClass = [],
         row_changeArrow = ''<i class="fas fa-minus"></i>'', row_changeText = ''+0.00%'',
         row_favoriteActive = isFavorite p (coin_id c)\<rparr> \<and>
      createFavoriteCoinRow rt c =
        \<lparr>row_coin_id = coin_id c, row_changeClass = [],
         row_changeArrow = ''<i class="fas fa-minus"></i>'', row_changeText = ''+0.00%'',
         row_favoriteActive = True\<rparr>) \<and>
   row_changeText (createCoinRow rt p c) \<noteq> ''N/A'' \<and>
   row_changeText (createFavoriteCoinRow rt c) \<noteq> ''N/A'' \<and>
   formatPercentage nts (Num (Fin 0)) = ''+0.00%''\<close>
proof -
  have absent: \<open>createCoinRow rt p c =
        \<lparr>row_coin_id = coin_id c, row_changeClass = [],
         row_changeArrow = ''<i class="fas fa-minus"></i>'', row_changeText = ''+0.00%'',
         row_favoriteActive = isFavorite p (coin_id c)\<rparr> \<and>
      createFavoriteCoinRow rt c =
        \<lparr>row_coin_id = coin_id c, row_changeClass = [],
         row_changeArrow = ''<i class="fas fa-minus"></i>'', row_changeText = ''+0.00%'',
         row_favoriteActive = True\<rparr>\<close>
    if "price_change_percentage_24h c = Null \<or> price_change_percentage_24h c = Undefined"
    using js_or_zero_absent [OF that] formatPercentage_zero [of "numberToString rt"]
    by (simp add: createCoinRow_def createFavoriteCoinRow_def getChangeClass_def
        getChangeArrow_def js_gt_def js_lt_def)
  have "row_changeText (createCoinRow rt p c) \<noteq> ''N/A''"
    using row_change_not_NA by (simp add: createCoinRow_def Let_def)
  moreover have "row_changeText (createFavoriteCoinRow rt c) \<noteq> ''N/A''"
    using row_change_not_NA by (simp add: createFavoriteCoinRow_def Let_def)
  ultimately show ?thesis
    using absent formatPercentage_zero by blast
qed

section \<open>Searching\<close>

lemma startsWith_iff: "startsWith s t \<longleftrightarrow> (\<exists>following. s = t @ following)"
  by (induction s t rule: startsWith.induct) auto

lemma str_includes_iff: "str_includes s t \<longleftrightarrow> occursIn t s"
proof (induction s)
  case Nil
  then show ?case by (simp add: occursIn_def)
next
  case (Cons c s)
  have "occursIn t (c # s) \<longleftrightarrow> (\<exists>following. c # s = t @ following) \<or> occursIn t s"
  proof
    assume "occursIn t (c # s)"
    then obtain preceding following where eq: "c # s = preceding @ t @ following"
      by (auto simp: occursIn_def)
    show "(\<exists>following. c # s = t @ following) \<or> occursIn t s"
    proof (cases preceding)
      case Nil
      with eq show ?thesis by auto
    next
      case (Cons b bs)
      with eq have "s = bs @ t @ following" by simp
      then show ?thesis by (auto simp: occursIn_def)
    qed
  next
    assume "(\<exists>following. c # s = t @ following) \<or> occursIn t s"
    then show "occursIn t (c # s)"
    proof
      assume "\<exists>following. c # s = t @ following"
      then obtain following where "c # s = [] @ t @ following" by auto
      then show ?thesis unfolding occursIn_def by blast
    next
      assume "occursIn t s"
      then obtain preceding following where "s = preceding @ t @ following"
        by (auto simp: occursIn_def)
      then have "c # s = (c # preceding) @ t @ following" by simp
      then show ?thesis unfolding occursIn_def by blast
    qed
  qed
  with Cons show ?case by (simp add: startsWith_iff del: startsWith.simps)
qed

lemma isWhiteSpace_lowerChar: "isWhiteSpace (lowerChar c) = isWhiteSpace c"
proof -
  have "(of_char (char_of (of_char c + 32 :: nat)) :: nat) = of_char c + 32"
    if "(of_char c :: nat) \<le> 222"
    using that by simp
  then show ?thesis
    by (auto simp: isWhiteSpace_def lowerChar_def Let_def)
qed

lemma trim_toLowerCase: "trim (toLowerCase q) = toLowerCase (trim q)"
proof -
  have comp: "isWhiteSpace \<circ> lowerChar = isWhiteSpace"
    by (simp add: fun_eq_iff isWhiteSpace_lowerChar)
  show ?thesis
    by (simp add: trim_def toLowerCase_def dropWhile_map rev_map comp)
qed

lemma trim_empty_iff: "trim q = [] \<longleftrightarrow> blank q"
proof -
  have "dropWhile isWhiteSpace (rev (dropWhile isWhiteSpace q)) = [] \<longleftrightarrow>
        dropWhile isWhiteSpace q = []"
  proof (cases "dropWhile isWhiteSpace q")
    case Nil
    then show ?thesis by (simp del: dropWhile_eq_Nil_conv)
  next
    case (Cons c cs)
    then have "\<not> isWhiteSpace c"
      using hd_dropWhile [of isWhiteSpace q] by auto
    with Cons show ?thesis
      by (auto simp: dropWhile_eq_Nil_conv)
  qed
  then show ?thesis
    by (simp add: trim_def blank_def dropWhile_eq_Nil_conv list_all_iff)
qed

lemma blank_cases: "q = [] \<or> trim q = [] \<longleftrightarrow> blank q"
  using trim_empty_iff [of q] by (auto simp: blank_def)

text \<open>
  Claim C3. For every query string and every coin list, \<open>searchCoins\<close> returns the list
  unchanged when the query is empty or all whitespace; otherwise it returns, in input
  order, exactly the coins whose name or symbol contains the trimmed query as a
  substring once both are lower-cased. The result does not depend on the client, and the
  client, with its cache, is left as it was.
\<close>

theorem searchCoins_filter:
  "searchCoins api q cs =
     (if blank q then cs
      else filter (\<lambda>coin. occursInIgnoringCase (trim q) (name coin) \<or>
                          occursInIgnoringCase (trim q) (symbol coin)) cs,
      api)"
  using blank_cases [of q]
  by (auto simp: searchCoins_def str_includes_iff trim_toLowerCase occursInIgnoringCase_def
      Let_def)

section \<open>Cache keys\<close>

lemma digitChar_cases:
  "d < 10 \<Longrightarrow>
   d = 0 \<or> d = 1 \<or> d = 2 \<or> d = 3 \<or> d = 4 \<or> d = 5 \<or> d = 6 \<or> d = 7 \<or> d = 8 \<or> d = (9::nat)"
  by arith

lemma digitChar_is_digit: "d < 10 \<Longrightarrow> digitChar d \<in> set ''0123456789''"
  by (auto simp: digitChar_def dest!: digitChar_cases)

lemma digitChar_inj: "d < 10 \<Longrightarrow> e < 10 \<Longrightarrow> digitChar d = digitChar e \<Longrightarrow> d = e"
  by (auto simp: digitChar_def dest!: digitChar_cases)

lemma natToString_digits: "set (natToString n) \<subseteq> set ''0123456789''"
proof (induction n rule: natToString.induct)
  case (1 n)
  show ?case
  proof (cases "n < 10")
    case True
    then show ?thesis
      using digitChar_is_digit [of n] by (subst natToString.simps) simp
  next
    case False
    then show ?thesis
      using 1 digitChar_is_digit [of "n mod 10"] by (subst natToString.simps) simp
  qed
qed

lemma natToString_not_Nil: "natToString n \<noteq> []"
  by (subst natToString.simps) simp

lemma natToString_inj: "natToString m = natToString n \<Longrightarrow> m = n"
proof (induction m arbitrary: n rule: natToString.induct)
  case (1 m)
  show ?case
  proof (cases "m < 10")
    case m: True
    show ?thesis
    proof (cases "n < 10")
      case True
      with m "1.prems" show ?thesis
        by (simp add: natToString.simps [of m] natToString.simps [of n] digitChar_inj)
    next
      case False
      with m "1.prems" natToString_not_Nil [of "n div 10"] show ?thesis
        by (simp add: natToString.simps [of m] natToString.simps [of n])
    qed
  next
    case m: False
    show ?thesis
    proof (cases "n < 10")
      case True
      with m "1.prems" natToString_not_Nil [of "m div 10"] show ?thesis
        by (simp add: natToString.simps [of m] natToString.simps [of n])
    next
      case False
      with m "1.prems" have eq: "natToString (m div 10) = natToString (n div 10)"
        and d: "digitChar (m mod 10) = digitChar (n mod 10)"
        by (simp_all add: natToString.simps [of m] natToString.simps [of n])
      from "1.IH" [OF m eq] have "m div 10 = n div 10" .
      moreover from d have "m mod 10 = n mod 10"
        by (simp add: digitChar_inj)
      ultimately show ?thesis
        by (metis div_mult_mod_eq)
    qed
  qed
qed

lemma natToString_no_minus: "hd (natToString n) \<noteq> CHR ''-''"
  using natToString_digits [of n] natToString_not_Nil [of n]
  by (cases "natToString n") auto

lemma intToString_inj: "intToString i = intToString j \<Longrightarrow> i = j"
proof -
  assume eq: "intToString i = intToString j"
  show ?thesis
  proof (cases "i < 0")
    case i: True
    show ?thesis
    proof (cases "j < 0")
      case True
      with i eq have "nat (- i) = nat (- j)"
        by (simp add: intToString_def natToString_inj)
      with i True show ?thesis by simp
    next
      case False
      with i eq natToString_no_minus [of "nat j"] show ?thesis
        by (metis intToString_def append_Cons append_Nil list.sel(1))
    qed
  next
    case i: False
    show ?thesis
    proof (cases "j < 0")
      case True
      with i eq natToString_no_minus [of "nat i"] show ?thesis
        by (metis intToString_def append_Cons append_Nil list.sel(1))
    next
      case False
      with i eq have "nat i = nat j"
        by (simp add: intToString_def natToString_inj)
      with i False show ?thesis by simp
    qed
  qed
qed

lemma intToString_no_underscore: "CHR ''_'' \<notin> set (intToString i)"
  using natToString_digits [of "nat i"] natToString_digits [of "nat (- i)"]
  by (auto simp: intToString_def)

lemma split_at_last_separator:
  assumes "a @ c # s = b @ c # t" and "c \<notin> set s" and "c \<notin> set t"
  shows "a = b \<and> s = t"
proof -
  have "takeWhile (\<lambda>x. x \<noteq> c) (rev s @ c # rev a) = rev s"
    using assms(2) by (auto simp: takeWhile_tail)
  moreover have "takeWhile (\<lambda>x. x \<noteq> c) (rev t @ c # rev b) = rev t"
    using assms(3) by (auto simp: takeWhile_tail)
  moreover have "rev s @ c # rev a = rev t @ c # rev b"
    using arg_cong [OF assms(1), of rev] by simp
  ultimately have "s = t" by simp
  with assms(1) show ?thesis by simp
qed

lemma safeNumber_Fin: "safeNumber x \<Longrightarrow> \<exists>r. x = Fin r \<and> safeInteger r"
  by (cases x) simp_all

lemma Number_toString_safe:
  "safeInteger r \<Longrightarrow> Number_toString nts (Fin r) = intToString \<lfloor>r\<rfloor>"
  by (simp add: Number_toString_def)

lemma Number_toString_inj_safe:
  assumes "safeNumber x" and "safeNumber y"
    and "Number_toString nts x = Number_toString nts y"
  shows "x = y"
proof -
  from assms(1) obtain r where x: "x = Fin r" and r: "safeInteger r"
    using safeNumber_Fin by blast
  from assms(2) obtain s where y: "y = Fin s" and s: "safeInteger s"
    using safeNumber_Fin by blast
  from assms(3) x y r s have "intToString \<lfloor>r\<rfloor> = intToString \<lfloor>s\<rfloor>"
    by (simp add: Number_toString_safe)
  then have "\<lfloor>r\<rfloor> = \<lfloor>s\<rfloor>"
    by (rule intToString_inj)
  moreover from r s have "of_int \<lfloor>r\<rfloor> = r" and "of_int \<lfloor>s\<rfloor> = s"
    by (simp_all add: safeInteger_def)
  ultimately have "r = s" by metis
  with x y show ?thesis by simp
qed

lemma Number_toString_no_underscore:
  "safeNumber x \<Longrightarrow> CHR ''_'' \<notin> set (Number_toString nts x)"
  using safeNumber_Fin [of x] intToString_no_underscore
  by (auto simp: Number_toString_safe)

lemma key_tail_eq:
  assumes "safeNumber x" and "safeNumber y"
  shows "a @ ''_'' @ Number_toString nts x = b @ ''_'' @ Number_toString nts y
    \<longleftrightarrow> a = b \<and> x = y"
  using split_at_last_separator
      [of a "CHR ''_''" "Number_toString nts x" b "Number_toString nts y"]
    Number_toString_no_underscore [OF assms(1), of nts]
    Number_toString_no_underscore [OF assms(2), of nts]
    Number_toString_inj_safe [OF assms, of nts]
  by auto

text \<open>
  Claim C4. On requests whose page, page size and day count are safe integers (integers
  of magnitude below \<open>2^53\<close>, which print as their decimal digits), the cache key is
  injective: two such requests get the same key only if they are the same request, that
  is of the same shape and with the same parameters. The coin identifier is any string,
  and the runtime's conversion of the other numbers plays no part. In particular two
  history requests that differ in the day count have different keys.
\<close>

theorem cacheKey_injective:
  assumes "safeRequest r1" and "safeRequest r2"
  shows "(cacheKey nts r1 = cacheKey nts r2) = (r1 = r2)"
proof (cases r1; cases r2)
  fix p1 n1 p2 n2
  assume r: "r1 = Listing p1 n1" "r2 = Listing p2 n2"
  with assms have safe: "safeNumber p1" "safeNumber n1" "safeNumber p2" "safeNumber n2"
    by simp_all
  from r show ?thesis
    using key_tail_eq [OF safe(2) safe(4), of "Number_toString nts p1" nts
        "Number_toString nts p2"]
      Number_toString_inj_safe [OF safe(1) safe(3), of nts]
    by auto
next
  fix c1 d1 c2 d2
  assume r: "r1 = History c1 d1" "r2 = History c2 d2"
  with assms have safe: "safeNumber d1" "safeNumber d2"
    by simp_all
  from r show ?thesis
    using key_tail_eq [OF safe, of c1 nts c2] by auto
qed simp_all

section \<open>The cache\<close>

lemma perform_cachedFetch:
  "perform nts net api now later r =
     cachedFetch net api now later (cacheKey nts r) (requestUrl nts api r)"
  by (cases r) (simp_all add: getCryptocurrencies_def getGlobalData_def getCoinHistory_def
      cachedFetch_def Let_def)

lemma getCachedData_fresh:
  "cache api key = Some e \<Longrightarrow> now - timestamp e < cacheTimeout api \<Longrightarrow>
   getCachedData api now key = data e"
  by (simp add: getCachedData_def)

lemma getCachedData_stale:
  "cache api key = Some e \<Longrightarrow> cacheTimeout api \<le> now - timestamp e \<Longrightarrow>
   getCachedData api now key = JNull"
  by (simp add: getCachedData_def)

lemma getCachedData_cleared: "getCachedData (clearCache api) now key = JNull"
  by (simp add: getCachedData_def clearCache_def)

lemma requestUrl_clearCache: "requestUrl nts (clearCache api) r = requestUrl nts api r"
  by (cases r) (simp_all add: clearCache_def)

lemma cachedFetch_miss:
  "\<not> truthy_json (getCachedData api now key) \<Longrightarrow>
   cachedFetch net api now later key u =
     (case makeRequest net u of
        Inl e \<Rightarrow> \<lparr>returned = Inl e, client = api, fetched = [u]\<rparr>
      | Inr d \<Rightarrow> \<lparr>returned = Inr d, client = setCachedData api later key d, fetched = [u]\<rparr>)"
  by (simp add: cachedFetch_def)

text \<open>
  Claim C1, as stated, fails: an entry stored less than five minutes ago is not served
  when its payload is falsy. Here the listing endpoint answers \<open>null\<close> with status 200 at
  time 0; the body is stored, and the same call one second later, with the entry in
  place and fresh, goes to the network again.
\<close>

theorem fresh_null_entry_is_refetched:
  "cache (client (getCryptocurrencies noText (alwaysReply (Response 200 (Some JNull)))
            new_CryptoAPI 0 0 (Fin 1) (Fin 50))) ''coins_1_50''
     = Some \<lparr>data = JNull, timestamp = 0\<rparr> \<and>
   1000 - 0 < cacheTimeout (client (getCryptocurrencies noText (alwaysReply (Response 200 (Some JNull)))
            new_CryptoAPI 0 0 (Fin 1) (Fin 50))) \<and>
   fetched (getCryptocurrencies noText (alwaysReply (Response 200 (Some JNull)))
     (client (getCryptocurrencies noText (alwaysReply (Response 200 (Some JNull)))
        new_CryptoAPI 0 0 (Fin 1) (Fin 50))) 1000 1000 (Fin 1) (Fin 50))
     = [requestUrl noText new_CryptoAPI (Listing (Fin 1) (Fin 50))]"
  by code_simp

text \<open>
  Claim C1, amended. For each of the three operations, on a client with the constructor's
  timeout: if the cache holds an entry under the key of the request, the entry was stored
  less than five minutes before the call, and its payload is truthy (as every array and
  every object is), then the call returns that payload, hands nothing to \<open>fetch\<close> and
  leaves the client as it was.
\<close>

theorem fresh_truthy_entry_is_served:
  assumes "cacheTimeout api = cacheTimeout new_CryptoAPI"
    and "cache api (cacheKey nts r) = Some e"
    and "now - timestamp e < 5 * 60 * 1000"
    and "truthy_json (data e)"
  shows "perform nts net api now later r = \<lparr>returned = Inr (data e), client = api, fetched = []\<rparr>"
proof -
  have "now - timestamp e < cacheTimeout api"
    using assms(1,3) by (simp add: new_CryptoAPI_def)
  with assms(2) have "getCachedData api now (cacheKey nts r) = data e"
    by (rule getCachedData_fresh)
  with assms(4) show ?thesis
    by (simp add: perform_cachedFetch cachedFetch_def)
qed

text \<open>
  Claim C2, as stated, fails: a call after the timeout does not overwrite the entry when
  its request fails. Here the global endpoint answers an empty object at time 0, which is
  stored; the call made five minutes later is answered with status 500, and the entry of
  time 0 is still the one in the cache.
\<close>

theorem stale_entry_kept_on_failure:
  "cache (client (getGlobalData (alwaysReply (Response 200 (Some (JObj []))))
            new_CryptoAPI 0 0)) ''global_data''
     = Some \<lparr>data = JObj [], timestamp = 0\<rparr> \<and>
   cacheTimeout (client (getGlobalData (alwaysReply (Response 200 (Some (JObj []))))
            new_CryptoAPI 0 0)) \<le> 300000 - 0 \<and>
   fetched (getGlobalData (alwaysReply (Response 500 None))
     (client (getGlobalData (alwaysReply (Response 200 (Some (JObj [])))) new_CryptoAPI 0 0))
     300000 300001)
     = [requestUrl noText new_CryptoAPI Global] \<and>
   cache (client (getGlobalData (alwaysReply (Response 500 None))
     (client (getGlobalData (alwaysReply (Response 200 (Some (JObj [])))) new_CryptoAPI 0 0))
     300000 300001)) ''global_data''
     = Some \<lparr>data = JObj [], timestamp = 0\<rparr>"
  by code_simp

text \<open>
  Claim C2, amended. For each of the three operations: when the entry under the key of
  the request is at least the timeout old at the call, exactly one URL, the one of the
  request, is handed to \<open>fetch\<close>. If that request succeeds, the decoded body is returned
  and the entry is replaced by this body with the clock reading at the store as its
  timestamp, the rest of the cache staying as it was; if it fails, the error is returned
  and the client is unchanged. Either way an entry remains under the key.
\<close>

theorem stale_entry_is_refetched:
  assumes "cache api (cacheKey nts r) = Some e"
    and "cacheTimeout api \<le> now - timestamp e"
  shows "fetched (perform nts net api now later r) = [requestUrl nts api r] \<and>
    cache (client (perform nts net api now later r)) (cacheKey nts r) \<noteq> None \<and>
    (case makeRequest net (requestUrl nts api r) of
       Inr d \<Rightarrow>
         returned (perform nts net api now later r) = Inr d \<and>
         client (perform nts net api now later r) =
           api\<lparr>cache := (cache api)(cacheKey nts r \<mapsto> \<lparr>data = d, timestamp = later\<rparr>)\<rparr>
     | Inl err \<Rightarrow>
         returned (perform nts net api now later r) = Inl err \<and>
         client (perform nts net api now later r) = api)"
proof -
  have "getCachedData api now (cacheKey nts r) = JNull"
    using assms by (rule getCachedData_stale)
  then have "\<not> truthy_json (getCachedData api now (cacheKey nts r))"
    by simp
  then show ?thesis
    using assms(1)
    by (simp add: perform_cachedFetch cachedFetch_miss setCachedData_def split: sum.splits)
qed

text \<open>
  Claim C7. \<open>clearCache\<close> leaves no entry under any key, and on the cleared client each
  of the three operations, with any parameters and at any time, hands exactly the URL of
  its request to \<open>fetch\<close>.
\<close>

theorem cleared_cache_forces_request:
  "fetched (perform nts net (clearCache api) now later r) = [requestUrl nts api r] \<and>
   cache (clearCache api) key = None"
  by (simp add: perform_cachedFetch cachedFetch_miss getCachedData_cleared
      requestUrl_clearCache split: sum.splits) (simp add: clearCache_def)

text \<open>
  Claim C8. For each of the three operations, let the reply to its request have a status
  outside 200 to 299 or a body that is not JSON. Then the client, and so the cache, is
  after the call what it was before. And when the call reaches the network (the cache
  look-up gave nothing truthy), it settles to the error, \<open>HttpError\<close> with the status or
  \<open>BodyNotJson\<close>, after handing to \<open>fetch\<close> exactly one URL, that of its request.
\<close>

theorem failed_request_leaves_cache:
  assumes "net (requestUrl nts api r) = Response status body"
    and "\<not> response_ok status \<or> body = None"
  shows "client (perform nts net api now later r) = api \<and>
    (\<not> truthy_json (getCachedData api now (cacheKey nts r)) \<longrightarrow>
       perform nts net api now later r =
         \<lparr>returned = Inl (if \<not> response_ok status then HttpError status else BodyNotJson),
          client = api, fetched = [requestUrl nts api r]\<rparr>)"
proof -
  have "makeRequest net (requestUrl nts api r) =
      Inl (if \<not> response_ok status then HttpError status else BodyNotJson)"
    using assms by (auto simp: makeRequest_def)
  then show ?thesis
    by (simp add: perform_cachedFetch cachedFetch_def)
qed

section \<open>Favourites\<close>













text \<open>
  In the favourites view the methods go on to refresh the view. Here the only favourite
  is removed there, with a listing in the cache: the cache is cleared, no request is made
  for an empty set, the empty state is shown instead of the table, and two notifications
  have been appended.
\<close>

lemma removing_the_last_favourite_in_its_view:
  "removeFavorite offlineEnv ''bitcoin''
     (setCachedData new_CryptoAPI 0 ''coins_1_250'' (JArr []),
      initialPage\<lparr>favorites := [''bitcoin''], currentView := Favorites\<rparr>)
   = (new_CryptoAPI,
      initialPage\<lparr>favorites := [], currentView := Favorites, storedFavorites := Some [],
        emptyFavoritesStateDisplay := ''block'', favoritesTableContainerDisplay := ''none'',
        notifications :=
          [(''Removed from favorites!'', ''info''), (''Favorites refreshed!'', ''success'')]\<rparr>)"
  by (simp add: offlineEnv_def initialPage_def new_CryptoAPI_def setCachedData_def
      clearCache_def set_delete_def saveFavorites_def updateFavoritesCount_def
      updateFavoriteButton_def showFavoriteNotification_def loadFavoritesView_def Let_def)


section \<open>The load cycle\<close>

lemma loadData_listing_failed:
  "loadData rt (Inl e) globalResult favoritesResult p =
     p\<lparr>errorMessageText := ''Failed to load data. Please try again.'',
       errorMessageDisplay := ''flex'', tableContainerDisplay := ''block'',
       loadingSpinnerDisplay := ''none'', isLoading := False\<rparr>"
  by (simp add: loadData_def showError_def toggleLoading_def)

lemma loadFavoritesView_keeps:
  assumes "favorites p = [] \<or> allCoinsResult = Inr fs"
  shows "errorMessageDisplay (loadFavoritesView rt allCoinsResult p) = errorMessageDisplay p"
    and "errorMessageText (loadFavoritesView rt allCoinsResult p) = errorMessageText p"
    and "coins (loadFavoritesView rt allCoinsResult p) = coins p"
  using assms
  by (auto simp: loadFavoritesView_def toggleLoading_def displayFavorites_def Let_def)

lemma displayCryptocurrencies_keeps:
  "errorMessageDisplay (displayCryptocurrencies rt cs p) = errorMessageDisplay p"
  "errorMessageText (displayCryptocurrencies rt cs p) = errorMessageText p"
  "coins (displayCryptocurrencies rt cs p) = coins p"
  by (simp_all add: displayCryptocurrencies_def)

lemma updateFavoriteButton_keeps:
  "errorMessageDisplay (updateFavoriteButton x a p) = errorMessageDisplay p"
  "errorMessageText (updateFavoriteButton x a p) = errorMessageText p"
  "coins (updateFavoriteButton x a p) = coins p"
  "totalMarketCapText (updateFavoriteButton x a p) = totalMarketCapText p"
  "totalCoinsText (updateFavoriteButton x a p) = totalCoinsText p"
  "isLoading (updateFavoriteButton x a p) = isLoading p"
  by (simp_all add: updateFavoriteButton_def)

lemma initializeFavoriteButtons_keeps:
  "errorMessageDisplay (initializeFavoriteButtons cs p) = errorMessageDisplay p \<and>
   errorMessageText (initializeFavoriteButtons cs p) = errorMessageText p \<and>
   coins (initializeFavoriteButtons cs p) = coins p \<and>
   totalMarketCapText (initializeFavoriteButtons cs p) = totalMarketCapText p \<and>
   totalCoinsText (initializeFavoriteButtons cs p) = totalCoinsText p \<and>
   isLoading (initializeFavoriteButtons cs p) = isLoading p"
  unfolding initializeFavoriteButtons_def
  by (induction cs arbitrary: p) (simp_all add: updateFavoriteButton_keeps)

text \<open>
  Claim C6. When the listing promise is rejected, whatever the global promise settles to,
  \<open>loadData\<close> changes nothing but the error banner, which it shows, the loading
  indicators and the flag: the orchestrator is in the state \<open>Error\<close>, and the two
  statistics texts, the coin list and the bodies of both tables are what they were.
  Conversely, when the listing arrives and only the global promise is rejected (in the
  favourites view the call for the favourites succeeds too, or there are no favourites),
  the coin list is replaced, both statistics texts are the placeholder \<open>N/A\<close>, and the
  error banner is not touched: the state is \<open>Idle\<close> unless a banner was up before.
\<close>

theorem load_cycle_failures:
  "loadData rt (Inl e) globalResult favoritesResult p =
     p\<lparr>errorMessageText := ''Failed to load data. Please try again.'',
       errorMessageDisplay := ''flex'', tableContainerDisplay := ''block'',
       loadingSpinnerDisplay := ''none'', isLoading := False\<rparr> \<and>
   orchestratorState (loadData rt (Inl e) globalResult favoritesResult p) = Error \<and>
   totalMarketCapText (loadData rt (Inl e) globalResult favoritesResult p)
     = totalMarketCapText p \<and>
   totalCoinsText (loadData rt (Inl e) globalResult favoritesResult p) = totalCoinsText p \<and>
   coins (loadData rt (Inl e) globalResult favoritesResult p) = coins p \<and>
   cryptoTableBody (loadData rt (Inl e) globalResult favoritesResult p) = cryptoTableBody p \<and>
   favoritesTableBody (loadData rt (Inl e) globalResult favoritesResult p)
     = favoritesTableBody p \<and>
   (currentView p = AllCoins \<or> favorites p = [] \<or> favoritesResult = Inr fs \<longrightarrow>
      coins (loadData rt (Inr cs) (Inl e') favoritesResult p) = cs \<and>
      totalMarketCapText (loadData rt (Inr cs) (Inl e') favoritesResult p) = ''N/A'' \<and>
      totalCoinsText (loadData rt (Inr cs) (Inl e') favoritesResult p) = ''N/A'' \<and>
      errorMessageDisplay (loadData rt (Inr cs) (Inl e') favoritesResult p)
        = errorMessageDisplay p \<and>
      errorMessageText (loadData rt (Inr cs) (Inl e') favoritesResult p) = errorMessageText p \<and>
      orchestratorState (loadData rt (Inr cs) (Inl e') favoritesResult p)
        = (if errorMessageDisplay p = ''flex'' then Error else Idle))"
proof -
  have ok: "coins (loadData rt (Inr cs) (Inl e') favoritesResult p) = cs \<and>
      totalMarketCapText (loadData rt (Inr cs) (Inl e') favoritesResult p) = ''N/A'' \<and>
      totalCoinsText (loadData rt (Inr cs) (Inl e') favoritesResult p) = ''N/A'' \<and>
      errorMessageDisplay (loadData rt (Inr cs) (Inl e') favoritesResult p)
        = errorMessageDisplay p \<and>
      errorMessageText (loadData rt (Inr cs) (Inl e') favoritesResult p) = errorMessageText p \<and>
      orchestratorState (loadData rt (Inr cs) (Inl e') favoritesResult p)
        = (if errorMessageDisplay p = ''flex'' then Error else Idle)"
    if "currentView p = AllCoins \<or> favorites p = [] \<or> favoritesResult = Inr fs"
  proof (cases "currentView p = Favorites")
    case True
    with that
    have "favorites (p\<lparr>isLoading := True, coins := cs\<rparr>) = [] \<or> favoritesResult = Inr fs"
      by auto
    note keeps = loadFavoritesView_keeps [OF this, of rt]
    from True show ?thesis
      by (simp add: loadData_def orchestratorState_def updateGlobalStats_def setAllCoins_def
          toggleLoading_def keeps initializeFavoriteButtons_keeps)
  next
    case False
    then show ?thesis
      by (simp add: loadData_def orchestratorState_def updateGlobalStats_def setAllCoins_def
          toggleLoading_def displayCryptocurrencies_keeps initializeFavoriteButtons_keeps)
  qed
  show ?thesis
    using ok by (simp add: loadData_listing_failed orchestratorState_def)
qed

section \<open>The theorems at concrete inputs\<close>

text \<open>
  Each theorem above that has a premise is applied here to a concrete input that meets
  the premise.
\<close>

lemma trim_BiT: "trim '' BiT  '' = ''BiT''"
  by code_simp

theorem searchCoins_filter_witness:
  "\<not> blank '' BiT  '' \<and>
   searchCoins new_CryptoAPI '' BiT  '' [bitcoin, ethereum] = ([bitcoin], new_CryptoAPI) \<and>
   blank ''  '' \<and>
   searchCoins new_CryptoAPI ''  '' [bitcoin, ethereum] = ([bitcoin, ethereum], new_CryptoAPI)"
proof -
  have nb: "\<not> blank '' BiT  ''" and b: "blank ''  ''"
    by (simp_all add: blank_def isWhiteSpace_def)
  have "occursInIgnoringCase ''BiT'' (name bitcoin)"
    "\<not> occursInIgnoringCase ''BiT'' (name ethereum)"
    "\<not> occursInIgnoringCase ''BiT'' (symbol ethereum)"
    unfolding occursInIgnoringCase_def str_includes_iff [symmetric] by code_simp+
  with nb b show ?thesis
    using searchCoins_filter [of new_CryptoAPI "'' BiT  ''" "[bitcoin, ethereum]"]
      searchCoins_filter [of new_CryptoAPI "''  ''" "[bitcoin, ethereum]"]
    by (simp add: trim_BiT)
qed

theorem absent_change_rendering_witness:
  \<open>(price_change_percentage_24h ethereum = Null \<or>
    price_change_percentage_24h ethereum = Undefined) \<and>
   createCoinRow silentRuntime initialPage ethereum =
     \<lparr>row_coin_id = ''ethereum'', row_changeClass = [],
      row_changeArrow = ''<i class="fas fa-minus"></i>'', row_changeText = ''+0.00%'',
      row_favoriteActive = False\<rparr> \<and>
   createFavoriteCoinRow silentRuntime ethereum =
     \<lparr>row_coin_id = ''ethereum'', row_changeClass = [],
      row_changeArrow = ''<i class="fas fa-minus"></i>'', row_changeText = ''+0.00%'',
      row_favoriteActive = True\<rparr>\<close>
  using absent_change_rendering [of ethereum silentRuntime initialPage]
  by (simp add: ethereum_def initialPage_def isFavorite_def set_has_def)

theorem fresh_truthy_entry_is_served_witness:
  "cacheTimeout (setCachedData new_CryptoAPI 0 ''coins_1_50'' (JArr []))
     = cacheTimeout new_CryptoAPI \<and>
   cache (setCachedData new_CryptoAPI 0 ''coins_1_50'' (JArr [])) (cacheKey noText (Listing (Fin 1) (Fin 50)))
     = Some \<lparr>data = JArr [], timestamp = 0\<rparr> \<and>
   1000 - timestamp \<lparr>data = JArr [], timestamp = 0\<rparr> < 5 * 60 * 1000 \<and>
   truthy_json (data \<lparr>data = JArr [], timestamp = 0\<rparr>) \<and>
   perform noText (alwaysReply Rejected) (setCachedData new_CryptoAPI 0 ''coins_1_50'' (JArr []))
     1000 2000 (Listing (Fin 1) (Fin 50))
     = \<lparr>returned = Inr (JArr []),
        client = setCachedData new_CryptoAPI 0 ''coins_1_50'' (JArr []), fetched = []\<rparr>"
proof -
  have h1: "cacheTimeout (setCachedData new_CryptoAPI 0 ''coins_1_50'' (JArr []))
      = cacheTimeout new_CryptoAPI"
    by (simp add: setCachedData_def)
  have h2: "cache (setCachedData new_CryptoAPI 0 ''coins_1_50'' (JArr []))
      (cacheKey noText (Listing (Fin 1) (Fin 50))) = Some \<lparr>data = JArr [], timestamp = 0\<rparr>"
    by code_simp
  have h3: "1000 - timestamp \<lparr>data = JArr [], timestamp = 0\<rparr> < 5 * 60 * 1000"
    by simp
  have h4: "truthy_json (data \<lparr>data = JArr [], timestamp = 0\<rparr>)"
    by simp
  show ?thesis
    using h1 h2 h3 h4
      fresh_truthy_entry_is_served [OF h1 h2 h3 h4, where net = "alwaysReply Rejected"
        and later = 2000]
    by simp
qed

theorem stale_entry_is_refetched_witness:
  "cache (setCachedData new_CryptoAPI 0 ''global_data'' (JObj [])) (cacheKey noText Global)
     = Some \<lparr>data = JObj [], timestamp = 0\<rparr> \<and>
   cacheTimeout (setCachedData new_CryptoAPI 0 ''global_data'' (JObj []))
     \<le> 300000 - timestamp \<lparr>data = JObj [], timestamp = 0\<rparr> \<and>
   fetched (perform noText (alwaysReply (Response 200 (Some (JArr []))))
       (setCachedData new_CryptoAPI 0 ''global_data'' (JObj [])) 300000 300007 Global)
     = [requestUrl noText new_CryptoAPI Global] \<and>
   cache (client (perform noText (alwaysReply (Response 200 (Some (JArr []))))
       (setCachedData new_CryptoAPI 0 ''global_data'' (JObj [])) 300000 300007 Global))
     ''global_data'' = Some \<lparr>data = JArr [], timestamp = 300007\<rparr>"
proof -
  have h1: "cache (setCachedData new_CryptoAPI 0 ''global_data'' (JObj [])) (cacheKey noText Global)
      = Some \<lparr>data = JObj [], timestamp = 0\<rparr>"
    by (simp add: setCachedData_def)
  have h2: "cacheTimeout (setCachedData new_CryptoAPI 0 ''global_data'' (JObj []))
      \<le> 300000 - timestamp \<lparr>data = JObj [], timestamp = 0\<rparr>"
    by (simp add: setCachedData_def new_CryptoAPI_def)
  have ok: "makeRequest (alwaysReply (Response 200 (Some (JArr [])))) u = Inr (JArr [])" for u
    by (simp add: makeRequest_def alwaysReply_def response_ok_def)
  have same: "requestUrl noText (setCachedData new_CryptoAPI 0 ''global_data'' (JObj [])) Global
      = requestUrl noText new_CryptoAPI Global"
    by (simp add: setCachedData_def)
  from stale_entry_is_refetched [OF h1 h2,
      where net = "alwaysReply (Response 200 (Some (JArr [])))" and later = 300007]
  have "fetched (perform noText (alwaysReply (Response 200 (Some (JArr []))))
       (setCachedData new_CryptoAPI 0 ''global_data'' (JObj [])) 300000 300007 Global)
     = [requestUrl noText new_CryptoAPI Global]"
    and "client (perform noText (alwaysReply (Response 200 (Some (JArr []))))
       (setCachedData new_CryptoAPI 0 ''global_data'' (JObj [])) 300000 300007 Global)
     = (setCachedData new_CryptoAPI 0 ''global_data'' (JObj []))
         \<lparr>cache := (cache (setCachedData new_CryptoAPI 0 ''global_data'' (JObj [])))
            (cacheKey noText Global \<mapsto> \<lparr>data = JArr [], timestamp = 300007\<rparr>)\<rparr>"
    unfolding ok same by simp_all
  with h1 h2 show ?thesis by simp
qed

theorem failed_request_leaves_cache_witness:
  "alwaysReply (Response 404 None) (requestUrl noText new_CryptoAPI (History ''bitcoin'' (Fin 7)))
     = Response 404 None \<and>
   \<not> response_ok 404 \<and>
   \<not> truthy_json (getCachedData new_CryptoAPI 5 (cacheKey noText (History ''bitcoin'' (Fin 7)))) \<and>
   perform noText (alwaysReply (Response 404 None)) new_CryptoAPI 5 6 (History ''bitcoin'' (Fin 7))
     = \<lparr>returned = Inl (HttpError 404), client = new_CryptoAPI,
        fetched = [requestUrl noText new_CryptoAPI (History ''bitcoin'' (Fin 7))]\<rparr>"
proof -
  have h1: "alwaysReply (Response 404 None) (requestUrl noText new_CryptoAPI (History ''bitcoin'' (Fin 7)))
      = Response 404 None"
    by (simp add: alwaysReply_def)
  have h2: "\<not> response_ok 404 \<or> (None :: json option) = None"
    by simp
  have miss: "\<not> truthy_json (getCachedData new_CryptoAPI 5 (cacheKey noText (History ''bitcoin'' (Fin 7))))"
    by (simp add: getCachedData_def new_CryptoAPI_def)
  have bad: "\<not> response_ok 404"
    by (simp add: response_ok_def)
  from failed_request_leaves_cache [where net = "alwaysReply (Response 404 None)"
      and nts = noText and api = new_CryptoAPI and r = "History ''bitcoin'' (Fin 7)"
      and status = 404 and body = None and now = 5 and later = 6] h1 h2 miss
  have "perform noText (alwaysReply (Response 404 None)) new_CryptoAPI 5 6 (History ''bitcoin'' (Fin 7))
     = \<lparr>returned = Inl (if \<not> response_ok 404 then HttpError 404 else BodyNotJson),
        client = new_CryptoAPI,
        fetched = [requestUrl noText new_CryptoAPI (History ''bitcoin'' (Fin 7))]\<rparr>"
    by blast
  with h1 h2 miss bad show ?thesis by simp
qed


theorem cacheKey_injective_witness:
  "safeRequest (History ''btc_1'' (Fin 7)) \<and>
   safeRequest (History ''btc'' (Fin 17)) \<and>
   cacheKey noText (History ''btc_1'' (Fin 7)) \<noteq> cacheKey noText (History ''btc'' (Fin 17)) \<and>
   safeRequest (Listing (Fin 1) (Fin 50)) \<and>
   safeRequest (Listing (Fin 1) (Fin 250)) \<and>
   cacheKey noText (Listing (Fin 1) (Fin 50)) \<noteq> cacheKey noText (Listing (Fin 1) (Fin 250))"
proof -
  have h1: "safeRequest (History ''btc_1'' (Fin 7))"
    and h2: "safeRequest (History ''btc'' (Fin 17))"
    and h3: "safeRequest (Listing (Fin 1) (Fin 50))"
    and h4: "safeRequest (Listing (Fin 1) (Fin 250))"
    by (simp_all add: safeInteger_def)
  from cacheKey_injective [OF h1 h2, of noText]
  have "cacheKey noText (History ''btc_1'' (Fin 7)) \<noteq> cacheKey noText (History ''btc'' (Fin 17))"
    by simp
  moreover from cacheKey_injective [OF h3 h4, of noText]
  have "cacheKey noText (Listing (Fin 1) (Fin 50)) \<noteq> cacheKey noText (Listing (Fin 1) (Fin 250))"
    by simp
  ultimately show ?thesis
    using h1 h2 h3 h4 by simp
qed

theorem load_cycle_failures_witness:
  "(currentView initialPage = AllCoins \<or> favorites initialPage = [] \<or>
      (Inl FetchRejected :: api_error + coin list) = Inr []) \<and>
   coins (loadData silentRuntime (Inr [bitcoin]) (Inl (HttpError 500)) (Inl FetchRejected)
     initialPage) = [bitcoin] \<and>
   totalMarketCapText (loadData silentRuntime (Inr [bitcoin]) (Inl (HttpError 500))
     (Inl FetchRejected) initialPage) = ''N/A'' \<and>
   totalCoinsText (loadData silentRuntime (Inr [bitcoin]) (Inl (HttpError 500))
     (Inl FetchRejected) initialPage) = ''N/A'' \<and>
   orchestratorState (loadData silentRuntime (Inr [bitcoin]) (Inl (HttpError 500))
     (Inl FetchRejected) initialPage) = Idle \<and>
   orchestratorState (loadData silentRuntime (Inl (HttpError 429))
     (Inr (Data \<lparr>total_market_cap_usd = Num (Fin 1), active_cryptocurrencies = Num (Fin 2)\<rparr>))
     (Inl FetchRejected) initialPage) = Error \<and>
   totalMarketCapText (loadData silentRuntime (Inl (HttpError 429))
     (Inr (Data \<lparr>total_market_cap_usd = Num (Fin 1), active_cryptocurrencies = Num (Fin 2)\<rparr>))
     (Inl FetchRejected) initialPage) = []"
proof -
  have h: "currentView initialPage = AllCoins \<or> favorites initialPage = [] \<or>
      (Inl FetchRejected :: api_error + coin list) = Inr []"
    by (simp add: initialPage_def)
  have hidden: "errorMessageDisplay initialPage \<noteq> ''flex''"
    by (simp add: initialPage_def)
  have blank_text: "totalMarketCapText initialPage = []"
    by (simp add: initialPage_def)
  note inst = load_cycle_failures [of silentRuntime "HttpError 429"
      "Inr (Data \<lparr>total_market_cap_usd = Num (Fin 1), active_cryptocurrencies = Num (Fin 2)\<rparr>)"
      "Inl FetchRejected" initialPage "[]" "[bitcoin]" "HttpError 500"]
  from inst h have ok: "coins (loadData silentRuntime (Inr [bitcoin]) (Inl (HttpError 500))
        (Inl FetchRejected) initialPage) = [bitcoin]"
    "totalMarketCapText (loadData silentRuntime (Inr [bitcoin]) (Inl (HttpError 500))
        (Inl FetchRejected) initialPage) = ''N/A''"
    "totalCoinsText (loadData silentRuntime (Inr [bitcoin]) (Inl (HttpError 500))
        (Inl FetchRejected) initialPage) = ''N/A''"
    "orchestratorState (loadData silentRuntime (Inr [bitcoin]) (Inl (HttpError 500))
        (Inl FetchRejected) initialPage)
      = (if errorMessageDisplay initialPage = ''flex'' then Error else Idle)"
    by blast+
  from inst have failed: "orchestratorState (loadData silentRuntime (Inl (HttpError 429))
      (Inr (Data \<lparr>total_market_cap_usd = Num (Fin 1), active_cryptocurrencies = Num (Fin 2)\<rparr>))
      (Inl FetchRejected) initialPage) = Error"
    "totalMarketCapText (loadData silentRuntime (Inl (HttpError 429))
      (Inr (Data \<lparr>total_market_cap_usd = Num (Fin 1), active_cryptocurrencies = Num (Fin 2)\<rparr>))
      (Inl FetchRejected) initialPage) = totalMarketCapText initialPage"
    by blast+
  show ?thesis
    unfolding ok failed blank_text using h hidden by simp
qed

end
